theory Spec2Isabelle
  imports Complex_Main
begin

section \<open>Values, errors and the simulator output\<close>

text \<open>
  Python numbers (ints and floats alike) are modelled as mathematical reals: every
  statement below is about the arithmetic the code writes down, not about the rounding
  of IEEE doubles. Exceptions are values of \<open>py_error\<close>, returned on the left of a sum.
\<close>

datatype py_error = KeyError | IndexError | AssertionError | ZeroDivisionError | TypeError

text \<open>
  The simulator output is a list of records (dicts from variable names to numbers), the
  last one being the most recent day.
\<close>

type_synonym pcse_record = "string \<rightharpoonup> real"
type_synonym pcse_output = "pcse_record list"

text \<open>
  \<open>process_pcse.compute_growth_storage_organ(output, timestep, multiplier)\<close> belongs to
  the module \<open>pcse_gym.utils.process_pcse_output\<close>, which reads the simulator output. It
  is kept abstract: a parameter \<open>cgso\<close> of everything that calls it, any function from
  an output (or \<open>None\<close>, which \<open>DEF.return_reward\<close> passes on when no baseline is
  given), a timestep and a multiplier to a number or an exception.
\<close>

type_synonym growth_fn = "pcse_output option \<Rightarrow> int \<Rightarrow> real \<Rightarrow> py_error + real"

section \<open>Rewards.ContainerEND\<close>

record ContainerEND =
  timestep :: int
  costs_nitrogen :: real
  cum_growth :: real
  cum_amount :: real
  cum_positive_reward :: real
  cum_cost :: real
  cum_misc_cost :: real
  cum_leach :: real
  actions :: real

definition ContainerEND_init :: "int \<Rightarrow> real \<Rightarrow> ContainerEND" where
  "ContainerEND_init ts cn =
     \<lparr>timestep = ts, costs_nitrogen = cn, cum_growth = 0, cum_amount = 0,
      cum_positive_reward = 0, cum_cost = 0, cum_misc_cost = 0, cum_leach = 0,
      actions = 0\<rparr>"


definition growth_storage_organ_wo_cost ::
  "growth_fn \<Rightarrow> ContainerEND \<Rightarrow> pcse_output \<Rightarrow> real \<Rightarrow> py_error + real" where
  "growth_storage_organ_wo_cost cgso c output multiplier =
     cgso (Some output) (timestep c) multiplier"

definition default_winterwheat_reward_wo_cost ::
  "growth_fn \<Rightarrow> ContainerEND \<Rightarrow> pcse_output \<Rightarrow> pcse_output option \<Rightarrow> real
     \<Rightarrow> py_error + real" where
  "default_winterwheat_reward_wo_cost cgso c output output_baseline multiplier =
     (case cgso (Some output) (timestep c) multiplier of
        Inl e \<Rightarrow> Inl e
      | Inr growth \<Rightarrow>
          (case cgso output_baseline (timestep c) multiplier of
             Inl e \<Rightarrow> Inl e
           | Inr growth_baseline \<Rightarrow> Inr (growth - growth_baseline)))"

definition calculate_amount :: "ContainerEND \<Rightarrow> real \<Rightarrow> ContainerEND" where
  "calculate_amount c action = c\<lparr>actions := actions c + action\<rparr>"

definition calculate_cost_cumulative :: "ContainerEND \<Rightarrow> real \<Rightarrow> ContainerEND" where
  "calculate_cost_cumulative c amount =
     (let c1 = c\<lparr>cum_amount := cum_amount c + amount\<rparr>
      in c1\<lparr>cum_cost := cum_cost c1 + amount * costs_nitrogen c1\<rparr>)"

definition calculate_misc_cumulative_cost :: "ContainerEND \<Rightarrow> real \<Rightarrow> ContainerEND" where
  "calculate_misc_cumulative_cost c cost = c\<lparr>cum_misc_cost := cum_misc_cost c + cost\<rparr>"

text \<open>Python's \<open>not output_baseline\<close>: true for \<open>None\<close> and for the empty list.\<close>

definition py_not :: "pcse_output option \<Rightarrow> bool" where
  "py_not ob = (case ob of None \<Rightarrow> True | Some xs \<Rightarrow> xs = [])"

text \<open>
  The growth is computed before the field is updated, so a call that raises leaves the
  object as it was.
\<close>

definition calculate_positive_reward_cumulative ::
  "growth_fn \<Rightarrow> ContainerEND \<Rightarrow> pcse_output \<Rightarrow> pcse_output option \<Rightarrow> real
     \<Rightarrow> py_error + ContainerEND" where
  "calculate_positive_reward_cumulative cgso c output output_baseline multiplier =
     (case (if py_not output_baseline
            then growth_storage_organ_wo_cost cgso c output multiplier
            else default_winterwheat_reward_wo_cost cgso c output output_baseline multiplier) of
        Inl e \<Rightarrow> Inl e
      | Inr benefits \<Rightarrow> Inr (c\<lparr>cum_positive_reward := cum_positive_reward c + benefits\<rparr>))"

definition calculate_cost_n :: "ContainerEND \<Rightarrow> real \<Rightarrow> ContainerEND" where
  "calculate_cost_n c amount = c\<lparr>cum_amount := cum_amount c + amount\<rparr>"

definition calculate_n_loss :: "ContainerEND \<Rightarrow> real \<Rightarrow> ContainerEND" where
  "calculate_n_loss c n_loss = c\<lparr>cum_leach := cum_leach c + n_loss\<rparr>"

definition get_total_fertilization :: "ContainerEND \<Rightarrow> real" where
  "get_total_fertilization c = actions c"

definition dump_cumulative_positive_reward :: "ContainerEND \<Rightarrow> real" where
  "dump_cumulative_positive_reward c = cum_positive_reward c"

definition dump_cumulative_cost :: "ContainerEND \<Rightarrow> real" where
  "dump_cumulative_cost c = cum_cost c + cum_misc_cost c"

text \<open>
  A call of one of the four bookkeeping methods, and the object after a sequence of such
  calls. A call that raises has not changed the object; the caller may go on.
\<close>

datatype method_call =
    CalculateAmount real
  | CalculateMiscCumulativeCost real
  | CalculatePositiveRewardCumulative pcse_output "pcse_output option" real
  | CalculateCostCumulative real

fun after_call :: "growth_fn \<Rightarrow> ContainerEND \<Rightarrow> method_call \<Rightarrow> ContainerEND" where
  "after_call cgso c (CalculateAmount a) = calculate_amount c a"
| "after_call cgso c (CalculateMiscCumulativeCost x) = calculate_misc_cumulative_cost c x"
| "after_call cgso c (CalculatePositiveRewardCumulative output output_baseline m) =
     (case calculate_positive_reward_cumulative cgso c output output_baseline m of
        Inl e \<Rightarrow> c
      | Inr c' \<Rightarrow> c')"
| "after_call cgso c (CalculateCostCumulative a) = calculate_cost_cumulative c a"

fun after_calls :: "growth_fn \<Rightarrow> ContainerEND \<Rightarrow> method_call list \<Rightarrow> ContainerEND" where
  "after_calls cgso c [] = c"
| "after_calls cgso c (x # xs) = after_calls cgso (after_call cgso c x) xs"

section \<open>Reward classes DEF and GRO\<close>





section \<open>ContainerNUE.nue_condition\<close>


section \<open>Calendar dates\<close>

text \<open>
  \<open>datetime.date\<close> and \<open>calendar.isleap\<close> belong to Python's standard library. A date is
  a year, a month and a day of the proleptic Gregorian calendar; dates are ordered
  lexicographically and the difference of two dates is the difference of their ordinals
  (days since 0001-01-01, counted from 1), computed as the library computes them.
\<close>

datatype date = Date (date_year: int) (date_month: int) (date_day: int)

definition isleap :: "int \<Rightarrow> bool" where
  "isleap y = (y mod 4 = 0 \<and> (y mod 100 \<noteq> 0 \<or> y mod 400 = 0))"



definition days_before_year :: "int \<Rightarrow> int" where
  "days_before_year y =
     (let y1 = y - 1 in y1 * 365 + y1 div 4 - y1 div 100 + y1 div 400)"

definition days_before_month :: "int \<Rightarrow> int \<Rightarrow> int" where
  "days_before_month y m =
     [0, 31, 59, 90, 120, 151, 181, 212, 243, 273, 304, 334] ! nat (m - 1)
       + (if m > 2 \<and> isleap y then 1 else 0)"

definition toordinal :: "date \<Rightarrow> int" where
  "toordinal d =
     days_before_year (date_year d) + days_before_month (date_year d) (date_month d)
       + date_day d"

definition date_lt :: "date \<Rightarrow> date \<Rightarrow> bool" where
  "date_lt a b =
     (date_year a < date_year b \<or>
      (date_year a = date_year b \<and>
       (date_month a < date_month b \<or>
        (date_month a = date_month b \<and> date_day a < date_day b))))"

definition timedelta_days :: "date \<Rightarrow> date \<Rightarrow> int" where
  "timedelta_days end_date start_date = toordinal end_date - toordinal start_date"

section \<open>Nitrogen deposition\<close>

definition m2_to_ha :: real where
  "m2_to_ha = 1 / 10000"

text \<open>
  The chained comparison \<open>1900 < year > 2030\<close> is \<open>1900 < year and year > 2030\<close>.
  The result is the pair \<open>(NH4, NO3)\<close>.
\<close>

definition get_deposition_amount :: "int option \<Rightarrow> real \<times> real" where
  "get_deposition_amount yr =
     (case yr of
        None \<Rightarrow> (9, 3)
      | Some y \<Rightarrow>
          if 1900 < y \<and> y > 2030 then (9, 3)
          else (697 - 0.339 * real_of_int y, 538.868 - 0.264 * real_of_int y))"

definition get_days_in_year :: "int \<Rightarrow> int" where
  "get_days_in_year y = 365 + (if isleap y then 1 else 0)"

function get_disaggregated_deposition :: "int \<Rightarrow> date \<Rightarrow> date \<Rightarrow> py_error + real \<times> real" where
  "get_disaggregated_deposition yr start_date end_date =
     (if \<not> date_lt start_date end_date then Inl AssertionError
      else if date_year start_date \<noteq> date_year end_date then
        (case get_disaggregated_deposition (date_year start_date) start_date
                (Date (date_year start_date) 12 31) of
           Inl e \<Rightarrow> Inl e
         | Inr (nh4_s, no3_s) \<Rightarrow>
             (case get_disaggregated_deposition (date_year end_date)
                     (Date (date_year end_date) 1 1) end_date of
                Inl e \<Rightarrow> Inl e
              | Inr (nh4_e, no3_e) \<Rightarrow> Inr (nh4_s + nh4_e, no3_s + no3_e)))
      else
        (let date_range = real_of_int (timedelta_days end_date start_date);
             (nh4_full, no3_full) = get_deposition_amount (Some yr);
             daily_nh4 = nh4_full / real_of_int (get_days_in_year yr);
             daily_no3 = no3_full / real_of_int (get_days_in_year yr)
         in Inr (daily_nh4 * date_range, daily_no3 * date_range)))"
  by pat_completeness auto
termination
  by (relation "measure (\<lambda>(yr, s, e). if date_year s \<noteq> date_year e then 1 else 0)") auto

text \<open>
  \<open>output[-1][key]\<close>: IndexError on an empty list, KeyError when the last record has no
  such key.
\<close>

definition last_field :: "pcse_output \<Rightarrow> string \<Rightarrow> py_error + real" where
  "last_field output key =
     (if output = [] then Inl IndexError
      else case (last output) key of None \<Rightarrow> Inl KeyError | Some v \<Rightarrow> Inr v)"

definition get_nh4_deposition_pcse :: "pcse_output \<Rightarrow> py_error + real" where
  "get_nh4_deposition_pcse output =
     (case last_field output ''RNH4DEPOSTT'' of Inl e \<Rightarrow> Inl e | Inr v \<Rightarrow> Inr (v / m2_to_ha))"

definition get_no3_deposition_pcse :: "pcse_output \<Rightarrow> py_error + real" where
  "get_no3_deposition_pcse output =
     (case last_field output ''RNO3DEPOSTT'' of Inl e \<Rightarrow> Inl e | Inr v \<Rightarrow> Inr (v / m2_to_ha))"

definition get_n_deposition_pcse :: "pcse_output \<Rightarrow> py_error + real" where
  "get_n_deposition_pcse output =
     (case get_no3_deposition_pcse output of
        Inl e \<Rightarrow> Inl e
      | Inr no3 \<Rightarrow>
          (case get_nh4_deposition_pcse output of
             Inl e \<Rightarrow> Inl e
           | Inr nh4 \<Rightarrow> Inr ((no3 + nh4) / m2_to_ha)))"

section \<open>Nitrogen input, surplus and use efficiency\<close>




section \<open>Prices and net profit\<close>











section \<open>The cumulative-cost invariant\<close>






section \<open>The nitrogen-use-efficiency coefficient\<close>




section \<open>The annual deposition amount\<close>

lemma nh4_line_never_9: "697 - 0.339 * real_of_int y \<noteq> 9"
proof
  assume "697 - 0.339 * real_of_int y = 9"
  then have "real_of_int (339 * y) = real_of_int 688000" by simp
  then have "339 * y = 688000" by (simp only: of_int_eq_iff)
  then have "(339 * y) mod 339 = (688000::int) mod 339" by (rule arg_cong)
  then show False by simp
qed

text \<open>
  Claim C9. \<open>get_deposition_amount\<close> gives the constants \<open>(NH4, NO3) = (9, 3)\<close> for
  \<open>None\<close> and for every year after 2030; for every other year, years up to 1900
  included, it gives the linear formulas; and the constant pair is returned in no other
  case.
\<close>

theorem C9_deposition_fallback:
  "get_deposition_amount None = (9, 3)
   \<and> (y > 2030 \<longrightarrow> get_deposition_amount (Some y) = (9, 3))
   \<and> (y \<le> 2030 \<longrightarrow>
        get_deposition_amount (Some y) =
          (697 - 0.339 * real_of_int y, 538.868 - 0.264 * real_of_int y))
   \<and> (get_deposition_amount yr = (9, 3) \<longleftrightarrow> yr = None \<or> (\<exists>y'. yr = Some y' \<and> y' > 2030))"
proof -
  have a: "get_deposition_amount None = (9, 3)"
    by (simp add: get_deposition_amount_def)
  have b: "y > 2030 \<longrightarrow> get_deposition_amount (Some y) = (9, 3)"
    by (simp add: get_deposition_amount_def)
  have c: "y \<le> 2030 \<longrightarrow>
        get_deposition_amount (Some y) =
          (697 - 0.339 * real_of_int y, 538.868 - 0.264 * real_of_int y)"
    by (simp add: get_deposition_amount_def)
  have d: "get_deposition_amount yr = (9, 3) \<longleftrightarrow> yr = None \<or> (\<exists>y'. yr = Some y' \<and> y' > 2030)"
  proof (cases yr)
    case None
    then show ?thesis using a by simp
  next
    case (Some y')
    show ?thesis
    proof (cases "y' > 2030")
      case True
      with Some show ?thesis by (simp add: get_deposition_amount_def)
    next
      case False
      then have "get_deposition_amount (Some y') =
          (697 - 0.339 * real_of_int y', 538.868 - 0.264 * real_of_int y')"
        by (simp add: get_deposition_amount_def)
      then have "get_deposition_amount (Some y') \<noteq> (9, 3)"
        using nh4_line_never_9 [of y'] by simp
      with Some False show ?thesis by simp
    qed
  qed
  from a b c d show ?thesis by blast
qed

theorem C9_deposition_fallback_witness:
  "get_deposition_amount (Some 2031) = (9, 3)
   \<and> get_deposition_amount (Some 2030) = (8.83, 2.948)
   \<and> get_deposition_amount (Some 1900) = (52.9, 37.268)
   \<and> get_deposition_amount (Some 1900) \<noteq> (9, 3)"
  using C9_deposition_fallback [of 2031 "Some 1900"] C9_deposition_fallback [of 2030 None]
    C9_deposition_fallback [of 1900 None]
  by simp

section \<open>Price tables\<close>










section \<open>Net profit\<close>


section \<open>Relative and absolute yield rewards\<close>



section \<open>Deposition read from the simulator output\<close>

text \<open>
  Claim C10. When the last record of the output has the fields \<open>RNO3DEPOSTT\<close> and
  \<open>RNH4DEPOSTT\<close>, each getter returns its field divided by \<open>m2_to_ha = 1e-4\<close>, and
  \<open>get_n_deposition_pcse\<close> returns the sum of the two getters divided by \<open>m2_to_ha\<close>
  once more.
\<close>

theorem C10_total_deposition:
  assumes "output \<noteq> []"
    and "last output ''RNO3DEPOSTT'' = Some a"
    and "last output ''RNH4DEPOSTT'' = Some b"
  shows "get_no3_deposition_pcse output = Inr (a / m2_to_ha)
    \<and> get_nh4_deposition_pcse output = Inr (b / m2_to_ha)
    \<and> get_n_deposition_pcse output = Inr ((a / m2_to_ha + b / m2_to_ha) / m2_to_ha)
    \<and> m2_to_ha = 1 / 10 ^ 4
    \<and> get_n_deposition_pcse output = Inr ((a + b) * 10 ^ 8)"
  using assms
  by (simp add: get_no3_deposition_pcse_def get_nh4_deposition_pcse_def
      get_n_deposition_pcse_def last_field_def m2_to_ha_def)

theorem C10_total_deposition_witness:
  "get_n_deposition_pcse
     [Map.empty, [''RNO3DEPOSTT'' \<mapsto> 0.0003, ''RNH4DEPOSTT'' \<mapsto> 0.0005]] = Inr 80000"
  using C10_total_deposition
    [of "[Map.empty, [''RNO3DEPOSTT'' \<mapsto> 0.0003, ''RNH4DEPOSTT'' \<mapsto> 0.0005]]" "0.0003" "0.0005"]
  by (simp add: m2_to_ha_def)

section \<open>Disaggregated deposition\<close>

lemma gdd_same_year:
  assumes "date_lt s e" and "date_year s = date_year e"
  shows "get_disaggregated_deposition y s e =
     Inr (fst (get_deposition_amount (Some y)) / real_of_int (get_days_in_year y)
            * real_of_int (timedelta_days e s),
          snd (get_deposition_amount (Some y)) / real_of_int (get_days_in_year y)
            * real_of_int (timedelta_days e s))"
  using assms by (simp add: Let_def split_beta)

lemma gdd_other_year:
  assumes "date_lt s e" and "date_year s \<noteq> date_year e"
  shows "get_disaggregated_deposition y s e =
     (case get_disaggregated_deposition (date_year s) s (Date (date_year s) 12 31) of
        Inl err \<Rightarrow> Inl err
      | Inr (nh4_s, no3_s) \<Rightarrow>
          (case get_disaggregated_deposition (date_year e) (Date (date_year e) 1 1) e of
             Inl err \<Rightarrow> Inl err
           | Inr (nh4_e, no3_e) \<Rightarrow> Inr (nh4_s + nh4_e, no3_s + no3_e)))"
  using assms by (subst get_disaggregated_deposition.simps) simp

lemma gdd_not_before:
  "\<not> date_lt s e \<Longrightarrow> get_disaggregated_deposition y s e = Inl AssertionError"
  by simp






section \<open>A whole year\<close>

lemma whole_year_days:
  "timedelta_days (Date y 12 31) (Date y 1 1) = get_days_in_year y - 1"
  by (simp add: timedelta_days_def toordinal_def days_before_month_def get_days_in_year_def)

text \<open>
  Claim C5, amended. The difference between 31 December and 1 January of a year is one
  day less than the year has, so for every year \<open>y\<close> of the calendar (1 to 9999) the
  disaggregation from 1 January to 31 December is the annual pair of \<open>y\<close> times
  \<open>(D - 1) / D\<close>, where \<open>D = 365 + isleap y\<close>.
\<close>

theorem C5_whole_year_amended:
  "1 \<le> y \<and> y \<le> 9999 \<longrightarrow>
   get_disaggregated_deposition y (Date y 1 1) (Date y 12 31) =
     Inr (fst (get_deposition_amount (Some y))
            * (real_of_int (get_days_in_year y - 1) / real_of_int (get_days_in_year y)),
          snd (get_deposition_amount (Some y))
            * (real_of_int (get_days_in_year y - 1) / real_of_int (get_days_in_year y)))"
proof
  assume "1 \<le> y \<and> y \<le> 9999"
  have "date_lt (Date y 1 1) (Date y 12 31)" by (simp add: date_lt_def)
  then have "get_disaggregated_deposition y (Date y 1 1) (Date y 12 31) =
     Inr (fst (get_deposition_amount (Some y)) / real_of_int (get_days_in_year y)
            * real_of_int (timedelta_days (Date y 12 31) (Date y 1 1)),
          snd (get_deposition_amount (Some y)) / real_of_int (get_days_in_year y)
            * real_of_int (timedelta_days (Date y 12 31) (Date y 1 1)))"
    by (rule gdd_same_year) simp
  then show "get_disaggregated_deposition y (Date y 1 1) (Date y 12 31) =
     Inr (fst (get_deposition_amount (Some y))
            * (real_of_int (get_days_in_year y - 1) / real_of_int (get_days_in_year y)),
          snd (get_deposition_amount (Some y))
            * (real_of_int (get_days_in_year y - 1) / real_of_int (get_days_in_year y)))"
    by (simp only: whole_year_days) simp
qed

theorem C5_whole_year_amended_witness:
  "get_disaggregated_deposition 2002 (Date 2002 1 1) (Date 2002 12 31) =
     Inr (18.322 * (364 / 365), 10.34 * (364 / 365))
   \<and> get_disaggregated_deposition 2000 (Date 2000 1 1) (Date 2000 12 31) =
     Inr (19 * (365 / 366), 10.868 * (365 / 366))"
  using C5_whole_year_amended [of 2002] C5_whole_year_amended [of 2000]
  by (simp del: get_disaggregated_deposition.simps
      add: get_days_in_year_def isleap_def get_deposition_amount_def)

text \<open>
  Claim C5, as stated, fails: for 2002 the disaggregation over the whole year is
  \<open>364 / 365\<close> of the annual pair, not the annual pair.
\<close>

theorem C5_whole_year_counterexample:
  "get_disaggregated_deposition 2002 (Date 2002 1 1) (Date 2002 12 31) \<noteq>
     Inr (get_deposition_amount (Some 2002))"
proof -
  have "date_lt (Date 2002 1 1) (Date 2002 12 31)" by (simp add: date_lt_def)
  then have "get_disaggregated_deposition 2002 (Date 2002 1 1) (Date 2002 12 31) =
     Inr (fst (get_deposition_amount (Some 2002)) / real_of_int (get_days_in_year 2002)
            * real_of_int (timedelta_days (Date 2002 12 31) (Date 2002 1 1)),
          snd (get_deposition_amount (Some 2002)) / real_of_int (get_days_in_year 2002)
            * real_of_int (timedelta_days (Date 2002 12 31) (Date 2002 1 1)))"
    by (rule gdd_same_year) simp
  then show ?thesis
    by (simp only: whole_year_days)
       (simp add: get_days_in_year_def isleap_def get_deposition_amount_def)
qed

section \<open>Nitrogen input, surplus and use efficiency\<close>



section \<open>Concrete runs\<close>


lemma C1_run_values:
  "cum_amount (after_calls (\<lambda>ob t m. case ob of None \<Rightarrow> Inl TypeError
                                  | Some xs \<Rightarrow> Inr (real (length xs) * m))
       (ContainerEND_init 7 10)
       [CalculateCostCumulative 2, CalculateAmount 2,
        CalculatePositiveRewardCumulative [Map.empty] None 1,
        CalculateMiscCumulativeCost 3, CalculateCostCumulative 1.5]) = 3.5
  \<and> dump_cumulative_cost (after_calls (\<lambda>ob t m. case ob of None \<Rightarrow> Inl TypeError
                                  | Some xs \<Rightarrow> Inr (real (length xs) * m))
       (ContainerEND_init 7 10)
       [CalculateCostCumulative 2, CalculateAmount 2,
        CalculatePositiveRewardCumulative [Map.empty] None 1,
        CalculateMiscCumulativeCost 3, CalculateCostCumulative 1.5]) = 38"
  by (simp add: ContainerEND_init_def calculate_cost_cumulative_def calculate_amount_def
      calculate_misc_cumulative_cost_def calculate_positive_reward_cumulative_def
      growth_storage_organ_wo_cost_def py_not_def dump_cumulative_cost_def)


section \<open>Edges of the two-year disaggregation\<close>

text \<open>
  The edges of the two-year case: the inner calls repeat the assertion, so a start on
  31 December or an end on 1 January makes the whole call raise AssertionError.
\<close>

lemma gdd_start_dec_31:
  assumes "date_lt (Date ys 12 31) e" and "date_year e \<noteq> ys"
  shows "get_disaggregated_deposition y (Date ys 12 31) e = Inl AssertionError"
proof -
  have "\<not> date_lt (Date ys 12 31) (Date ys 12 31)" by (simp add: date_lt_def)
  then have "get_disaggregated_deposition ys (Date ys 12 31) (Date ys 12 31) = Inl AssertionError"
    by (rule gdd_not_before)
  moreover from assms have "date_year (Date ys 12 31) \<noteq> date_year e" by simp
  ultimately show ?thesis
    using gdd_other_year [OF assms(1), of y] by simp
qed

lemma gdd_start_dec_31_example:
  "get_disaggregated_deposition 2002 (Date 2001 12 31) (Date 2002 3 1) = Inl AssertionError"
  by (rule gdd_start_dec_31) (simp_all add: date_lt_def)

end
